theory Spec2Isabelle
  imports Complex_Main
begin

section \<open>Career advisor application: the logic of app.py\<close>

text \<open>
  The application is one Python script. Its own logic is the skill aggregation
  (\<open>get_skills_for_user\<close>), the gap table (\<open>skill_gap_analysis_df\<close>), the chat
  directive parser (\<open>parse_special_commands\<close>), the chat turn handler
  (\<open>show_mentor_chat\<close>) and the news fetcher (\<open>fetch_industry_news\<close>). The hosted
  completion service, the news service and the configuration store are outside the
  script; they enter the model as parameters collected in an environment record.

  A Python \<open>str\<close> is modelled as a \<open>string\<close>, each \<open>char\<close> standing for the
  code point of the same number. The model therefore covers the texts whose code points
  are below 256; the tables of white space and of letter case below are Python's tables
  on that range.
\<close>

subsection \<open>Python dictionaries and strings\<close>

text \<open>\<open>d.get(k, default)\<close>.\<close>

definition dict_get :: "('k \<rightharpoonup> 'v) \<Rightarrow> 'k \<Rightarrow> 'v \<Rightarrow> 'v" where
  "dict_get d k dflt = (case d k of None \<Rightarrow> dflt | Some v \<Rightarrow> v)"

subsection \<open>Gap calculator\<close>

text \<open>
  One row of the data frame built by \<open>skill_gap_analysis_df\<close>; the fields are the
  columns 'Skill', 'Current Level', 'Target Level' and 'Gap'.
\<close>

record gap_row =
  Skill :: string
  Current_Level :: int
  Target_Level :: int
  Gap :: int

text \<open>
  The per-skill levels are a dictionary read with \<open>get\<close>, so either key may be absent.
  The outer dictionary is given by its \<open>items()\<close>, a list in insertion order.
\<close>

type_synonym levels = "string \<rightharpoonup> int"

text \<open>The loop of \<open>skill_gap_analysis_df\<close>; \<open>data\<close> is the list appended to.\<close>

fun gap_loop :: "(string \<times> levels) list \<Rightarrow> gap_row list \<Rightarrow> gap_row list" where
  "gap_loop [] data = data"
| "gap_loop ((skill, lv) # items) data =
     (let current = dict_get lv ''current'' 0;
          target = dict_get lv ''target'' 0
      in gap_loop items
           (data @ [\<lparr>Skill = skill, Current_Level = current, Target_Level = target,
                      Gap = target - current\<rparr>]))"

definition skill_gap_analysis_df :: "(string \<times> levels) list \<Rightarrow> gap_row list" where
  "skill_gap_analysis_df skills_dict = gap_loop skills_dict []"

subsection \<open>Python strings\<close>

text \<open>
  \<open>str.isspace\<close> on one character, which is also the class \<open>\s\<close> of a \<open>str\<close>
  pattern: the code points 9 to 13, 28 to 32, 133 and 160 are the white space below 256.
\<close>

definition py_isspace :: "char \<Rightarrow> bool" where
  "py_isspace c =
     (let n = (of_char c :: nat)
      in (9 \<le> n \<and> n \<le> 13) \<or> (28 \<le> n \<and> n \<le> 32) \<or> n = 133 \<or> n = 160)"

text \<open>\<open>s.strip(chars)\<close>: the characters satisfying \<open>P\<close> are removed at both ends.\<close>

definition strip_chars :: "(char \<Rightarrow> bool) \<Rightarrow> string \<Rightarrow> string" where
  "strip_chars P s = rev (dropWhile P (rev (dropWhile P s)))"

text \<open>\<open>s.strip()\<close>.\<close>

definition py_strip :: "string \<Rightarrow> string" where
  "py_strip s = strip_chars py_isspace s"

text \<open>\<open>s.split(sep)\<close> for a separator of one character; the result is never empty.\<close>

fun py_split :: "char \<Rightarrow> string \<Rightarrow> string list" where
  "py_split sep [] = [[]]"
| "py_split sep (c # cs) =
     (if c = sep then [] # py_split sep cs
      else (case py_split sep cs of [] \<Rightarrow> [[c]] | w # ws \<Rightarrow> (c # w) # ws))"

text \<open>\<open>s.replace(old, new)\<close> for single characters.\<close>

definition py_replace :: "char \<Rightarrow> char \<Rightarrow> string \<Rightarrow> string" where
  "py_replace old new s = map (\<lambda>c. if c = old then new else c) s"

text \<open>
  \<open>s.capitalize()\<close> on ASCII text: the first character in upper case, the others in
  lower case. The script applies it to the keys of \<open>command_patterns\<close> only, which
  are ASCII.
\<close>

definition ascii_upper :: "char \<Rightarrow> char" where
  "ascii_upper c =
     (let n = (of_char c :: nat) in if 97 \<le> n \<and> n \<le> 122 then char_of (n - 32) else c)"

definition ascii_lower :: "char \<Rightarrow> char" where
  "ascii_lower c =
     (let n = (of_char c :: nat) in if 65 \<le> n \<and> n \<le> 90 then char_of (n + 32) else c)"

definition py_capitalize :: "string \<Rightarrow> string" where
  "py_capitalize s = (case s of [] \<Rightarrow> [] | c # cs \<Rightarrow> ascii_upper c # map ascii_lower cs)"

text \<open>The line feed, written \<open>"\n"\<close> in the script.\<close>

definition newline :: char where
  "newline = CHR 0x0A"

subsection \<open>Regular expression search with IGNORECASE\<close>

text \<open>
  The lower-case mapping that the matcher applies to a character of the text when the
  flag \<open>re.IGNORECASE\<close> is set: the letters A to Z and the upper-case letters of the
  range 192 to 222 (215, the multiplication sign, is not a letter) move up by 32.
\<close>

definition sre_lower :: "char \<Rightarrow> char" where
  "sre_lower c =
     (let n = (of_char c :: nat)
      in if (65 \<le> n \<and> n \<le> 90) \<or> (192 \<le> n \<and> n \<le> 222 \<and> n \<noteq> 215)
         then char_of (n + 32) else c)"

text \<open>
  A literal pattern matched at the start of the text, ignoring case; the result is the
  text after the match.
\<close>

fun match_literal :: "string \<Rightarrow> string \<Rightarrow> string option" where
  "match_literal [] s = Some s"
| "match_literal (p # ps) [] = None"
| "match_literal (p # ps) (c # cs) =
     (if sre_lower c = sre_lower p then match_literal ps cs else None)"

text \<open>
  Both patterns of the script are a literal followed by \<open>\s*(.*)\<close>. Matched at the
  start of the text: after the literal, the greedy \<open>\s*\<close> takes all white space (line
  feeds included) and the greedy \<open>(.*)\<close> takes everything up to the next line feed.
  Nothing follows the group, so the first attempt succeeds and there is no backtracking.
  The result is \<open>match.group(1)\<close>.
\<close>

definition match_directive :: "string \<Rightarrow> string \<Rightarrow> string option" where
  "match_directive lit s =
     (case match_literal lit s of
        None \<Rightarrow> None
      | Some rest \<Rightarrow> Some (takeWhile (\<lambda>c. c \<noteq> newline) (dropWhile py_isspace rest)))"

text \<open>
  \<open>re.search\<close>: the match at the leftmost position of the text where there is one,
  the end of the text being the last position tried.
\<close>

fun re_search :: "string \<Rightarrow> string \<Rightarrow> string option" where
  "re_search lit [] = match_directive lit []"
| "re_search lit (c # cs) =
     (case match_directive lit (c # cs) of
        Some g \<Rightarrow> Some g
      | None \<Rightarrow> re_search lit cs)"

subsection \<open>Session state\<close>

text \<open>
  The profile is the dictionary stored by the intake form; it is empty until the form
  is saved, so every field is optional.
\<close>

record profile =
  name :: "string option"
  profession :: "string option"
  experience_years :: "int option"
  career_goals :: "string option"
  career_interests :: "string list option"

text \<open>A chat message, \<open>{"role": ..., "content": ...}\<close>.\<close>

record chat_turn =
  role :: string
  content :: string

text \<open>
  The four fields of \<open>st.session_state\<close> that the script initialises; the field
  \<open>context\<close> is named \<open>session_context\<close> here.
\<close>

record session_state =
  user_profile :: profile
  personal_skills :: "(string \<times> levels) list"
  chat_history :: "chat_turn list"
  session_context :: "string \<rightharpoonup> string"

subsection \<open>Exceptions and the world outside the script\<close>

text \<open>
  \<open>Exception detail\<close> is an exception deriving from \<open>Exception\<close>, with \<open>detail\<close>
  what \<open>str(e)\<close> gives: the errors of the completion client, of the HTTP client and of
  Python itself are of this kind. \<open>StopException\<close> is what \<open>st.stop()\<close> raises; it
  derives from \<open>BaseException\<close> only, so \<open>except Exception\<close> lets it pass and a
  bare \<open>except\<close> catches it.
\<close>

datatype exn = Exception string | StopException

text \<open>The arguments of \<open>client.chat.completions.create\<close>.\<close>

record request =
  model :: string
  messages :: "chat_turn list"
  max_tokens :: nat
  temperature :: rat

text \<open>A JSON value as \<open>response.json()\<close> returns it; an object is given by its items.\<close>

datatype json =
  JNull | JBool bool | JNum int | JStr string | JArr "json list" | JObj "(string \<times> json) list"

text \<open>
  An HTTP response: its status, and its body as JSON when the body parses
  (\<open>response.json()\<close> raises otherwise).
\<close>

record http_response =
  status_code :: nat
  body_json :: "json option"

text \<open>
  What the script reads from outside: the two places of the completion key
  (\<open>st.secrets\<close>, and the file \<open>secrets.toml\<close> when it exists), the two places of the
  news key, the completion service (from the client's key and the request to the content
  of the first choice, or an exception), the HTTP client, and Python's \<open>str()\<close> of the
  two dictionaries that the mentor prompt interpolates. The secrets store and the
  environment are read as dictionaries, \<open>None\<close> standing for an absent key; the store
  has been read once, at the top of the script, before any function below runs.
\<close>

record env =
  secrets_openai_key :: "string option"
  toml_openai_key :: "string option option"
  secrets_news_key :: "string option"
  getenv_news_key :: "string option"
  completion :: "string \<Rightarrow> request \<Rightarrow> exn + string"
  requests_get :: "string \<Rightarrow> exn + http_response"
  str_profile :: "profile \<Rightarrow> string"
  str_context :: "(string \<rightharpoonup> string) \<Rightarrow> string"

text \<open>Truth value of an optional string: \<open>None\<close> and the empty string are false.\<close>

definition truthy :: "string option \<Rightarrow> bool" where
  "truthy v = (case v of None \<Rightarrow> False | Some s \<Rightarrow> s \<noteq> [])"

definition get_openai_api_key :: "env \<Rightarrow> string option" where
  "get_openai_api_key e =
     (if truthy (secrets_openai_key e) then secrets_openai_key e
      else (case toml_openai_key e of
              Some config_value \<Rightarrow> config_value
            | None \<Rightarrow> None))"

definition MODEL_NAME :: string where
  "MODEL_NAME = ''gpt-4o''"

text \<open>The client is identified with the key it was built from.\<close>

definition get_openai_client :: "env \<Rightarrow> exn + string" where
  "get_openai_client e =
     (let api_key = get_openai_api_key e
      in if \<not> truthy api_key then Inl StopException
         else (case api_key of Some k \<Rightarrow> Inr k | None \<Rightarrow> Inl StopException))"

subsection \<open>Skill aggregator\<close>

definition skills_by_profession :: "(string \<times> string list) list" where
  "skills_by_profession =
     [(''Data Analyst'', [''Python'', ''SQL'', ''Data Visualization'', ''Statistics'']),
      (''Software Engineer'', [''Python'', ''Algorithms'', ''Data Structures'', ''System Design'']),
      (''Project Manager'', [''Leadership'', ''Project Planning'', ''Risk Management'', ''Agile'']),
      (''Student'', [''Time Management'', ''Research'', ''Presentation Skills''])]"

definition skills_by_industry :: "(string \<times> string list) list" where
  "skills_by_industry =
     [(''IT'', [''Cloud Computing'', ''Machine Learning'', ''Python'']),
      (''Healthcare'', [''Medical Terminology'', ''Patient Care'', ''Data Compliance'']),
      (''Finance'', [''Financial Modeling'', ''Risk Analysis'', ''Excel'']),
      (''Education'', [''Curriculum Planning'', ''Teaching Skills'', ''Assessment Design'']),
      (''Engineering'', [''CAD'', ''Mathematics'', ''Project Management'']),
      (''Others'', [])]"

text \<open>
  The characters that \<open>fetch_dynamic_skills\<close> strips from each line: the hyphen, the
  space, and the three characters of a wrongly decoded bullet, of which the code points
  226 and 162 are below 256 (the third, 8364, is outside the texts modelled).
\<close>

definition bullet_chars :: "char list" where
  "bullet_chars = [CHR ''-'', CHR 0xE2, CHR 0xA2, CHR '' '']"

text \<open>The list comprehension over the lines of the completion.\<close>

definition skill_lines :: "string \<Rightarrow> string list" where
  "skill_lines text =
     map (strip_chars (\<lambda>c. c \<in> set bullet_chars))
       (filter (\<lambda>s. py_strip s \<noteq> []) (py_split newline text))"

text \<open>The arguments of the completion call in \<open>fetch_dynamic_skills\<close>.\<close>

definition skills_request :: "env \<Rightarrow> profile \<Rightarrow> request" where
  "skills_request e p =
     \<lparr>model = MODEL_NAME,
      messages =
        [\<lparr>role = ''system'',
          content = ''You are a career coach. Suggest trending skills for this user.''\<rparr>,
         \<lparr>role = ''user'',
          content = ''User Profile: '' @ str_profile e p @
            ''. Suggest 5 trending skills relevant to their profession and industry.''\<rparr>],
      max_tokens = 200,
      temperature = 1 / 2\<rparr>"

text \<open>Nothing catches an exception of the client or of the call.\<close>

definition fetch_dynamic_skills :: "env \<Rightarrow> profile \<Rightarrow> exn + string list" where
  "fetch_dynamic_skills e p =
     (case get_openai_client e of
        Inl x \<Rightarrow> Inl x
      | Inr client \<Rightarrow>
          (case completion e client (skills_request e p) of
             Inl x \<Rightarrow> Inl x
           | Inr text \<Rightarrow> Inr (skill_lines text)))"

text \<open>The loop over the industries of interest; \<open>industry_skills\<close> is the list extended.\<close>

fun industry_loop :: "string list \<Rightarrow> string list \<Rightarrow> string list" where
  "industry_loop [] industry_skills = industry_skills"
| "industry_loop (ind # inds) industry_skills =
     industry_loop inds (industry_skills @ dict_get (map_of skills_by_industry) ind [])"

text \<open>The two static lists that \<open>get_skills_for_user\<close> builds before the external call.\<close>

definition prof_skills :: "profile \<Rightarrow> string list" where
  "prof_skills p =
     dict_get (map_of skills_by_profession)
       (case profession p of None \<Rightarrow> [] | Some v \<Rightarrow> v) []"

definition industry_skills :: "profile \<Rightarrow> string list" where
  "industry_skills p =
     industry_loop (case career_interests p of None \<Rightarrow> [] | Some v \<Rightarrow> v) []"

text \<open>
  The result is \<open>list(set(...))\<close>: a list without duplicates whose order Python does
  not fix. The model returns the set of its elements.
\<close>

definition get_skills_for_user :: "env \<Rightarrow> profile \<Rightarrow> exn + string set" where
  "get_skills_for_user e p =
     (let ps = prof_skills p;
          is = industry_skills p
      in case fetch_dynamic_skills e p of
           Inl x \<Rightarrow> Inl x
         | Inr ai_suggested \<Rightarrow> Inr (set (ps @ is @ ai_suggested)))"

subsection \<open>News fetcher\<close>

text \<open>\<open>a or b\<close> on optional strings.\<close>

definition py_or :: "string option \<Rightarrow> string option \<Rightarrow> string option" where
  "py_or a b = (if truthy a then a else b)"

text \<open>\<open>response.raise_for_status()\<close> raises for the statuses 400 to 599.\<close>

definition raise_for_status :: "http_response \<Rightarrow> exn + unit" where
  "raise_for_status r =
     (if 400 \<le> status_code r \<and> status_code r < 600 then Inl (Exception ''HTTPError'')
      else Inr ())"

text \<open>\<open>j.get(k, default)\<close>: only a dictionary has the method.\<close>

fun json_get :: "json \<Rightarrow> string \<Rightarrow> json \<Rightarrow> exn + json" where
  "json_get (JObj kvs) k dflt = Inr (dict_get (map_of kvs) k dflt)"
| "json_get j k dflt = Inl (Exception ''AttributeError'')"

text \<open>
  \<open>for a in j\<close>: a list gives its elements, a dictionary its keys, a string its
  characters; nothing else can be iterated.
\<close>

fun json_iter :: "json \<Rightarrow> exn + json list" where
  "json_iter (JArr xs) = Inr xs"
| "json_iter (JObj kvs) = Inr (map (\<lambda>kv. JStr (fst kv)) kvs)"
| "json_iter (JStr s) = Inr (map (\<lambda>c. JStr [c]) s)"
| "json_iter j = Inl (Exception ''TypeError'')"

text \<open>\<open>a[k]\<close> for a string key: a dictionary with the key, or an exception.\<close>

fun json_item :: "json \<Rightarrow> string \<Rightarrow> exn + json" where
  "json_item (JObj kvs) k =
     (case map_of kvs k of None \<Rightarrow> Inl (Exception ''KeyError'') | Some v \<Rightarrow> Inr v)"
| "json_item j k = Inl (Exception ''TypeError'')"

text \<open>
  The list comprehension \<open>[(a['title'], a['url']) for a in articles]\<close>: the first
  element that raises ends it.
\<close>

fun article_pairs :: "json list \<Rightarrow> exn + (json \<times> json) list" where
  "article_pairs [] = Inr []"
| "article_pairs (a # as) =
     (case json_item a ''title'' of
        Inl x \<Rightarrow> Inl x
      | Inr title \<Rightarrow>
          (case json_item a ''url'' of
             Inl x \<Rightarrow> Inl x
           | Inr url \<Rightarrow>
               (case article_pairs as of
                  Inl x \<Rightarrow> Inl x
                | Inr ps \<Rightarrow> Inr ((title, url) # ps))))"

text \<open>The body of the \<open>try\<close> block of \<open>fetch_industry_news\<close>.\<close>

definition fetch_industry_news_try :: "env \<Rightarrow> string \<Rightarrow> exn + (json \<times> json) list" where
  "fetch_industry_news_try e url =
     (case requests_get e url of
        Inl x \<Rightarrow> Inl x
      | Inr response \<Rightarrow>
          (case raise_for_status response of
             Inl x \<Rightarrow> Inl x
           | Inr u \<Rightarrow>
               (case body_json response of
                  None \<Rightarrow> Inl (Exception ''JSONDecodeError'')
                | Some j \<Rightarrow>
                    (case json_get j ''articles'' (JArr []) of
                       Inl x \<Rightarrow> Inl x
                     | Inr articles \<Rightarrow>
                         (case json_iter articles of
                            Inl x \<Rightarrow> Inl x
                          | Inr as \<Rightarrow> article_pairs as)))))"

definition news_url :: "env \<Rightarrow> string \<Rightarrow> string" where
  "news_url e industry =
     (let NEWS_API_KEY =
            (case py_or (secrets_news_key e) (py_or (getenv_news_key e) (Some ''YOUR_NEWSAPI_KEY'')) of
               Some k \<Rightarrow> k | None \<Rightarrow> [])
      in ''https://newsapi.org/v2/everything?q='' @ industry @
         ''&pageSize=5&sortBy=publishedAt&apiKey='' @ NEWS_API_KEY)"

text \<open>The bare \<open>except\<close> turns every exception of the block into the empty list.\<close>

definition fetch_industry_news :: "env \<Rightarrow> string \<Rightarrow> exn + (json \<times> json) list" where
  "fetch_industry_news e industry =
     (case fetch_industry_news_try e (news_url e industry) of
        Inl x \<Rightarrow> Inr []
      | Inr items \<Rightarrow> Inr items)"

subsection \<open>Command parser\<close>

text \<open>
  \<open>command_patterns\<close>, in the order of the dictionary literal. Each pattern is given
  by its literal part; the rest of both patterns, \<open>\s*(.*)\<close>, is in
  \<open>match_directive\<close>.
\<close>

definition command_patterns :: "(string \<times> string) list" where
  "command_patterns = [(''timeline'', ''timeline:''), (''prep_level'', ''prep level:'')]"

text \<open>\<open>key.replace('_', ' ').capitalize()\<close>.\<close>

definition key_title :: "string \<Rightarrow> string" where
  "key_title key = py_capitalize (py_replace (CHR ''_'') (CHR '' '') key)"

text \<open>
  The loop of \<open>parse_special_commands\<close>: the returned string (\<open>None\<close> when the loop
  ends without a match) and the session state, whose context a recorded value changes.
\<close>

fun parse_loop ::
  "(string \<times> string) list \<Rightarrow> string \<Rightarrow> session_state \<Rightarrow> string option \<times> session_state" where
  "parse_loop [] user_input st = (None, st)"
| "parse_loop ((key, pattern) # rest) user_input st =
     (case re_search pattern user_input of
        None \<Rightarrow> parse_loop rest user_input st
      | Some group1 \<Rightarrow>
          (let v = py_strip group1
           in if v = [] then
                (Some (key_title key @ '' value missing. Please provide a value.''), st)
              else
                (Some (key_title key @ '' recorded: '' @ v @ ''.''),
                 st\<lparr>session_context := (session_context st)(key \<mapsto> v)\<rparr>)))"

definition parse_special_commands ::
  "string \<Rightarrow> session_state \<Rightarrow> string option \<times> session_state" where
  "parse_special_commands user_input st = parse_loop command_patterns user_input st"

subsection \<open>Mentor chat\<close>

text \<open>The arguments of the completion call in \<open>get_ai_mentor_response\<close>.\<close>

definition mentor_request :: "env \<Rightarrow> string \<Rightarrow> session_state \<Rightarrow> request" where
  "mentor_request e user_input st =
     (let prompt_messages =
            [\<lparr>role = ''system'', content = ''You are a helpful career mentor AI assistant.''\<rparr>,
             \<lparr>role = ''user'',
              content = ''User Profile: '' @ str_profile e (user_profile st) @
                '', Context: '' @ str_context e (session_context st) @
                '', Question: '' @ user_input\<rparr>]
      in \<lparr>model = MODEL_NAME, messages = prompt_messages, max_tokens = 400,
          temperature = 7 / 10\<rparr>)"

definition get_ai_mentor_response :: "env \<Rightarrow> string \<Rightarrow> session_state \<Rightarrow> exn + string" where
  "get_ai_mentor_response e user_input st =
     (case get_openai_client e of
        Inl x \<Rightarrow> Inl x
      | Inr client \<Rightarrow> completion e client (mentor_request e user_input st))"

text \<open>\<open>chat_history.append({"role": r, "content": c})\<close>.\<close>

definition append_turn :: "string \<Rightarrow> string \<Rightarrow> session_state \<Rightarrow> session_state" where
  "append_turn r c st = st\<lparr>chat_history := chat_history st @ [\<lparr>role = r, content = c\<rparr>]\<rparr>"

text \<open>
  \<open>show_mentor_chat\<close> after it has drawn the transcript: \<open>user_input\<close> is what
  \<open>st.chat_input\<close> returned, \<open>None\<close> when nothing was submitted. The result is the
  exception that leaves the function, if any, and the session state at that moment.
\<close>

definition show_mentor_chat ::
  "env \<Rightarrow> string option \<Rightarrow> session_state \<Rightarrow> (exn + unit) \<times> session_state" where
  "show_mentor_chat e user_input st =
     (if \<not> truthy user_input then (Inr (), st)
      else
        (let ui = (case user_input of Some s \<Rightarrow> s | None \<Rightarrow> []);
             st1 = append_turn ''user'' ui st;
             (response, st2) = parse_special_commands ui st1
         in case response of
              Some r \<Rightarrow> (Inr (), append_turn ''assistant'' r st2)
            | None \<Rightarrow>
                (case get_ai_mentor_response e ui st2 of
                   Inr r \<Rightarrow> (Inr (), append_turn ''assistant'' r st2)
                 | Inl (Exception detail) \<Rightarrow>
                     (Inr (), append_turn ''assistant'' (''Sorry, there was an error: '' @ detail) st2)
                 | Inl StopException \<Rightarrow> (Inl StopException, st2))))"

text \<open>
  A session of the chat page: the script runs once for each value of the input box,
  on the state that the run before left, whether that run ended normally or not.
\<close>

fun chat_session :: "env \<Rightarrow> string option list \<Rightarrow> session_state \<Rightarrow> session_state" where
  "chat_session e [] st = st"
| "chat_session e (user_input # inputs) st =
     chat_session e inputs (snd (show_mentor_chat e user_input st))"

subsection \<open>Notions used in the statements\<close>

text \<open>The row that one item of the skills dictionary contributes to the gap table.\<close>

definition row_of :: "string \<times> levels \<Rightarrow> gap_row" where
  "row_of item =
     \<lparr>Skill = fst item,
      Current_Level = dict_get (snd item) ''current'' 0,
      Target_Level = dict_get (snd item) ''target'' 0,
      Gap = dict_get (snd item) ''target'' 0 - dict_get (snd item) ''current'' 0\<rparr>"

text \<open>
  \<open>leftmost lit s pre t\<close>: the text \<open>s\<close> is \<open>pre\<close> followed by \<open>t\<close>, the literal
  matches at the start of \<open>t\<close> and at no earlier position of \<open>s\<close>.
\<close>

definition leftmost :: "string \<Rightarrow> string \<Rightarrow> string \<Rightarrow> string \<Rightarrow> bool" where
  "leftmost lit s pre t \<longleftrightarrow>
     s = pre @ t \<and> match_literal lit t \<noteq> None
     \<and> (\<forall>n < length pre. match_literal lit (drop n s) = None)"

subsection \<open>Examples used in the witnesses\<close>

text \<open>
  An environment with a completion key in the secrets store and no news key, around a
  given completion service and a given HTTP client.
\<close>

definition example_env ::
  "(string \<Rightarrow> request \<Rightarrow> exn + string) \<Rightarrow> (string \<Rightarrow> exn + http_response) \<Rightarrow> env" where
  "example_env service http =
     \<lparr>secrets_openai_key = Some ''sk-test'', toml_openai_key = None,
      secrets_news_key = None, getenv_news_key = None,
      completion = service, requests_get = http,
      str_profile = (\<lambda>p. ''{}''), str_context = (\<lambda>c. ''{}'')\<rparr>"

text \<open>The profile of the end-to-end example: a data analyst interested in IT.\<close>

definition ana :: profile where
  "ana =
     \<lparr>name = Some ''Ana'', profession = Some ''Data Analyst'', experience_years = Some 3,
      career_goals = Some ''Lead a data team'', career_interests = Some [''IT'']\<rparr>"

text \<open>The session state after Ana has saved her profile.\<close>

definition ana_state :: session_state where
  "ana_state =
     \<lparr>user_profile = ana, personal_skills = [], chat_history = [],
      session_context = Map.empty\<rparr>"

section \<open>Properties\<close>

subsection \<open>Gap calculator\<close>

lemma gap_loop_append: "gap_loop items data = data @ map row_of items"
  by (induction items arbitrary: data) (auto simp: row_of_def Let_def)

lemma skill_gap_analysis_df_map: "skill_gap_analysis_df d = map row_of d"
  by (simp add: skill_gap_analysis_df_def gap_loop_append)

text \<open>
  Claim C1. For every skills dictionary, the gap table has one row for each key, in the
  order of the dictionary, and the row of a skill with levels \<open>current = c\<close> and
  \<open>target = t\<close> holds \<open>c\<close>, \<open>t\<close> and the gap \<open>t - c\<close>: an integer difference,
  not clamped, negative when the target is below the current level.
\<close>

theorem skill_gap_analysis_df_rows:
  assumes "i < length d" and "d ! i = (s, lv)"
    and "lv ''current'' = Some c" and "lv ''target'' = Some t"
  shows "length (skill_gap_analysis_df d) = length d
    \<and> map Skill (skill_gap_analysis_df d) = map fst d
    \<and> skill_gap_analysis_df d ! i =
        \<lparr>Skill = s, Current_Level = c, Target_Level = t, Gap = t - c\<rparr>"
  using assms by (simp add: skill_gap_analysis_df_map row_of_def dict_get_def comp_def)

theorem skill_gap_analysis_df_rows_witness:
  "(1::nat) < length [(''Python'', [''current'' \<mapsto> 2, ''target'' \<mapsto> 5]),
                      (''SQL'', [''current'' \<mapsto> 4, ''target'' \<mapsto> (1::int)])]
   \<and> skill_gap_analysis_df
        [(''Python'', [''current'' \<mapsto> 2, ''target'' \<mapsto> 5]),
         (''SQL'', [''current'' \<mapsto> 4, ''target'' \<mapsto> 1])] ! 1 =
       \<lparr>Skill = ''SQL'', Current_Level = 4, Target_Level = 1, Gap = - 3\<rparr>"
  using skill_gap_analysis_df_rows
    [of 1 "[(''Python'', [''current'' \<mapsto> 2, ''target'' \<mapsto> 5]),
            (''SQL'', [''current'' \<mapsto> 4, ''target'' \<mapsto> 1])]"
        "''SQL''" "[''current'' \<mapsto> 4, ''target'' \<mapsto> 1]" 4 1]
  by simp

text \<open>
  Claim C10. The gap calculator has no failing branch: it gives one row for every skill,
  whatever keys the levels dictionary of the skill has. A level that the dictionary lacks
  counts as 0 and a level that it has is taken as it is: with only \<open>target = t\<close> the
  row holds 0, \<open>t\<close> and the gap \<open>t\<close>; with only \<open>current = c\<close> it holds \<open>c\<close>, 0
  and the gap \<open>- c\<close>; with an empty levels dictionary it holds 0 in all three columns.
\<close>

theorem skill_gap_analysis_df_missing_keys:
  assumes "i < length d" and "d ! i = (s, lv)"
  shows "length (skill_gap_analysis_df d) = length d
    \<and> skill_gap_analysis_df d ! i =
        \<lparr>Skill = s,
         Current_Level = (case lv ''current'' of None \<Rightarrow> 0 | Some c \<Rightarrow> c),
         Target_Level = (case lv ''target'' of None \<Rightarrow> 0 | Some t \<Rightarrow> t),
         Gap = (case lv ''target'' of None \<Rightarrow> 0 | Some t \<Rightarrow> t)
               - (case lv ''current'' of None \<Rightarrow> 0 | Some c \<Rightarrow> c)\<rparr>
    \<and> (lv ''current'' = None \<and> lv ''target'' = Some t \<longrightarrow>
          skill_gap_analysis_df d ! i =
            \<lparr>Skill = s, Current_Level = 0, Target_Level = t, Gap = t\<rparr>)
    \<and> (lv ''current'' = Some c \<and> lv ''target'' = None \<longrightarrow>
          skill_gap_analysis_df d ! i =
            \<lparr>Skill = s, Current_Level = c, Target_Level = 0, Gap = - c\<rparr>)
    \<and> (lv ''current'' = None \<and> lv ''target'' = None \<longrightarrow>
          skill_gap_analysis_df d ! i =
            \<lparr>Skill = s, Current_Level = 0, Target_Level = 0, Gap = 0\<rparr>)
    \<and> (lv ''current'' = None \<longrightarrow>
          Current_Level (skill_gap_analysis_df d ! i) = 0
          \<and> Gap (skill_gap_analysis_df d ! i) = Target_Level (skill_gap_analysis_df d ! i))
    \<and> (lv ''target'' = None \<longrightarrow>
          Target_Level (skill_gap_analysis_df d ! i) = 0
          \<and> Gap (skill_gap_analysis_df d ! i) = - Current_Level (skill_gap_analysis_df d ! i))
    \<and> (lv = Map.empty \<longrightarrow>
          skill_gap_analysis_df d ! i =
            \<lparr>Skill = s, Current_Level = 0, Target_Level = 0, Gap = 0\<rparr>)"
proof -
  have row: "skill_gap_analysis_df d ! i =
        \<lparr>Skill = s,
         Current_Level = (case lv ''current'' of None \<Rightarrow> 0 | Some c \<Rightarrow> c),
         Target_Level = (case lv ''target'' of None \<Rightarrow> 0 | Some t \<Rightarrow> t),
         Gap = (case lv ''target'' of None \<Rightarrow> 0 | Some t \<Rightarrow> t)
               - (case lv ''current'' of None \<Rightarrow> 0 | Some c \<Rightarrow> c)\<rparr>"
    using assms by (simp add: skill_gap_analysis_df_map row_of_def dict_get_def)
  have len: "length (skill_gap_analysis_df d) = length d"
    by (simp add: skill_gap_analysis_df_map)
  show ?thesis
    unfolding row using len by simp
qed

text \<open>
  A skill with a target only, one with no level at all and one with a current level
  only: the level that is there reaches the row.
\<close>

theorem skill_gap_analysis_df_missing_keys_witness:
  "skill_gap_analysis_df
     [(''Python'', [''target'' \<mapsto> 3]), (''SQL'', Map.empty), (''Excel'', [''current'' \<mapsto> 2])] ! 0 =
     \<lparr>Skill = ''Python'', Current_Level = 0, Target_Level = 3, Gap = 3\<rparr>
   \<and> skill_gap_analysis_df
     [(''Python'', [''target'' \<mapsto> 3]), (''SQL'', Map.empty), (''Excel'', [''current'' \<mapsto> 2])] ! 1 =
     \<lparr>Skill = ''SQL'', Current_Level = 0, Target_Level = 0, Gap = 0\<rparr>
   \<and> skill_gap_analysis_df
     [(''Python'', [''target'' \<mapsto> 3]), (''SQL'', Map.empty), (''Excel'', [''current'' \<mapsto> 2])] ! 2 =
     \<lparr>Skill = ''Excel'', Current_Level = 2, Target_Level = 0, Gap = - 2\<rparr>
   \<and> length (skill_gap_analysis_df
     [(''Python'', [''target'' \<mapsto> 3]), (''SQL'', Map.empty), (''Excel'', [''current'' \<mapsto> 2])]) = 3"
proof -
  let ?d = "[(''Python'', [''target'' \<mapsto> (3::int)]), (''SQL'', Map.empty),
             (''Excel'', [''current'' \<mapsto> 2])]"
  have 0: "skill_gap_analysis_df ?d ! 0 =
      \<lparr>Skill = ''Python'', Current_Level = 0, Target_Level = 3, Gap = 3\<rparr>
      \<and> length (skill_gap_analysis_df ?d) = 3"
    using skill_gap_analysis_df_missing_keys [of 0 ?d "''Python''" "[''target'' \<mapsto> 3]" 3]
    by simp
  have 1: "skill_gap_analysis_df ?d ! 1 =
      \<lparr>Skill = ''SQL'', Current_Level = 0, Target_Level = 0, Gap = 0\<rparr>"
    using skill_gap_analysis_df_missing_keys [of 1 ?d "''SQL''" Map.empty]
    by simp
  have 2: "skill_gap_analysis_df ?d ! 2 =
      \<lparr>Skill = ''Excel'', Current_Level = 2, Target_Level = 0, Gap = - 2\<rparr>"
    using skill_gap_analysis_df_missing_keys
      [of 2 ?d "''Excel''" "[''current'' \<mapsto> 2]" _ 2]
    by simp
  from 0 1 2 show ?thesis by simp
qed

subsection \<open>Skill aggregator\<close>

lemma industry_loop_append:
  "industry_loop inds acc =
     acc @ concat (map (\<lambda>ind. dict_get (map_of skills_by_industry) ind []) inds)"
  by (induction inds arbitrary: acc) auto

lemma set_industry_skills:
  "set (industry_skills p) =
     (\<Union>ind \<in> set (case career_interests p of None \<Rightarrow> [] | Some v \<Rightarrow> v).
        set (dict_get (map_of skills_by_industry) ind []))"
  by (simp add: industry_skills_def industry_loop_append)

lemma prof_skills_cases:
  "prof_skills p =
     (case profession p of
        None \<Rightarrow> []
      | Some prof \<Rightarrow> (case map_of skills_by_profession prof of None \<Rightarrow> [] | Some l \<Rightarrow> l))"
  by (simp add: prof_skills_def dict_get_def skills_by_profession_def split: option.splits)

text \<open>
  Claim C2. When the completion service answers, the skills of a profile are the union,
  as a set of strings, of the profession table's entry for the profile's profession
  (nothing when the profile has no profession or the table has no such entry), of the
  industry table's entries for the industries of interest, and of the suggested skills.
  For the profession Data Analyst with the one industry IT, the two tables give six
  skills, Python once.
\<close>

theorem get_skills_for_user_union:
  assumes "fetch_dynamic_skills e p = Inr ai"
  shows "get_skills_for_user e p =
      Inr (set (case profession p of
                  None \<Rightarrow> []
                | Some prof \<Rightarrow>
                    (case map_of skills_by_profession prof of None \<Rightarrow> [] | Some l \<Rightarrow> l))
           \<union> (\<Union>ind \<in> set (case career_interests p of None \<Rightarrow> [] | Some v \<Rightarrow> v).
                 set (case map_of skills_by_industry ind of None \<Rightarrow> [] | Some l \<Rightarrow> l))
           \<union> set ai)
    \<and> (profession p = Some ''Data Analyst'' \<and> career_interests p = Some [''IT''] \<longrightarrow>
          set (prof_skills p @ industry_skills p) =
            {''Python'', ''SQL'', ''Data Visualization'', ''Statistics'',
             ''Cloud Computing'', ''Machine Learning''}
          \<and> card (set (prof_skills p @ industry_skills p)) = 6)"
proof -
  have "get_skills_for_user e p = Inr (set (prof_skills p) \<union> set (industry_skills p) \<union> set ai)"
    using assms by (simp add: get_skills_for_user_def Let_def Un_assoc)
  then have union: "get_skills_for_user e p =
      Inr (set (case profession p of
                  None \<Rightarrow> []
                | Some prof \<Rightarrow>
                    (case map_of skills_by_profession prof of None \<Rightarrow> [] | Some l \<Rightarrow> l))
           \<union> (\<Union>ind \<in> set (case career_interests p of None \<Rightarrow> [] | Some v \<Rightarrow> v).
                 set (case map_of skills_by_industry ind of None \<Rightarrow> [] | Some l \<Rightarrow> l))
           \<union> set ai)"
    by (simp add: set_industry_skills prof_skills_cases dict_get_def Un_assoc)
  have six: "set (prof_skills p @ industry_skills p) =
            {''Python'', ''SQL'', ''Data Visualization'', ''Statistics'',
             ''Cloud Computing'', ''Machine Learning''}"
    if "profession p = Some ''Data Analyst''" and "career_interests p = Some [''IT'']"
    using that
    by (auto simp: prof_skills_def industry_skills_def dict_get_def
        skills_by_profession_def skills_by_industry_def)
  have "card {''Python'', ''SQL'', ''Data Visualization'', ''Statistics'',
             ''Cloud Computing'', ''Machine Learning''} = 6"
    by simp
  with union six show ?thesis by simp
qed

text \<open>
  The service suggests Python, python and Docker: Python joins the one of the tables,
  python differs from it by case and stays.
\<close>

theorem get_skills_for_user_union_witness:
  "get_skills_for_user
     (example_env (\<lambda>k r. Inr (''- Python'' @ [newline] @ ''- python'' @ [newline] @ ''- Docker''))
        (\<lambda>u. Inl (Exception ''ConnectionError''))) ana =
   Inr {''Python'', ''SQL'', ''Data Visualization'', ''Statistics'',
        ''Cloud Computing'', ''Machine Learning'', ''python'', ''Docker''}
   \<and> card (set (prof_skills ana @ industry_skills ana)) = 6"
proof -
  have f: "fetch_dynamic_skills
     (example_env (\<lambda>k r. Inr (''- Python'' @ [newline] @ ''- python'' @ [newline] @ ''- Docker''))
        (\<lambda>u. Inl (Exception ''ConnectionError''))) ana = Inr [''Python'', ''python'', ''Docker'']"
    by code_simp
  have p: "profession ana = Some ''Data Analyst'' \<and> career_interests ana = Some [''IT'']"
    by (simp add: ana_def)
  show ?thesis
    using get_skills_for_user_union [OF f] p
    by (auto simp: skills_by_profession_def skills_by_industry_def)
qed

subsection \<open>Command parser\<close>

lemma key_title_timeline: "key_title ''timeline'' = ''Timeline''"
  by code_simp

lemma key_title_prep_level: "key_title ''prep_level'' = ''Prep level''"
  by code_simp

lemma parse_special_commands_unfold:
  "parse_special_commands ui st =
     (case re_search ''timeline:'' ui of
        Some g \<Rightarrow>
          (if py_strip g = [] then (Some ''Timeline value missing. Please provide a value.'', st)
           else (Some (''Timeline recorded: '' @ py_strip g @ ''.''),
                 st\<lparr>session_context := (session_context st)(''timeline'' \<mapsto> py_strip g)\<rparr>))
      | None \<Rightarrow>
          (case re_search ''prep level:'' ui of
             Some g \<Rightarrow>
               (if py_strip g = [] then
                  (Some ''Prep level value missing. Please provide a value.'', st)
                else (Some (''Prep level recorded: '' @ py_strip g @ ''.''),
                      st\<lparr>session_context := (session_context st)(''prep_level'' \<mapsto> py_strip g)\<rparr>))
           | None \<Rightarrow> (None, st)))"
  by (simp add: parse_special_commands_def command_patterns_def Let_def
      key_title_timeline key_title_prep_level split: option.splits)

lemma rev_dropWhile_split:
  "xs = rev (dropWhile P (rev xs)) @ rev (takeWhile P (rev xs))"
proof -
  have "rev (rev xs) = rev (takeWhile P (rev xs) @ dropWhile P (rev xs))"
    by (simp only: takeWhile_dropWhile_id)
  then show ?thesis by (simp only: rev_append rev_rev_ident)
qed

lemma strip_chars_decompose:
  "\<exists>a b. s = a @ strip_chars P s @ b \<and> list_all P a \<and> list_all P b"
proof -
  let ?ys = "dropWhile P s"
  have "s = takeWhile P s @ ?ys" by simp
  also have "?ys = strip_chars P s @ rev (takeWhile P (rev ?ys))"
    unfolding strip_chars_def by (rule rev_dropWhile_split)
  finally have "s = takeWhile P s @ strip_chars P s @ rev (takeWhile P (rev ?ys))" .
  moreover have "list_all P (takeWhile P s)" "list_all P (rev (takeWhile P (rev ?ys)))"
    by (auto simp: list_all_iff dest: set_takeWhileD)
  ultimately show ?thesis by blast
qed

lemma strip_chars_ends:
  assumes "strip_chars P s \<noteq> []"
  shows "\<not> P (hd (strip_chars P s)) \<and> \<not> P (last (strip_chars P s))"
proof -
  let ?ys = "dropWhile P s"
  let ?ws = "dropWhile P (rev ?ys)"
  have ne: "?ws \<noteq> []" using assms by (simp add: strip_chars_def)
  then have l: "\<not> P (hd ?ws)" by (rule hd_dropWhile)
  have "last (strip_chars P s) = hd ?ws"
    using ne by (simp add: strip_chars_def last_rev)
  with l have last: "\<not> P (last (strip_chars P s))" by simp
  have ys: "?ys = strip_chars P s @ rev (takeWhile P (rev ?ys))"
    unfolding strip_chars_def by (rule rev_dropWhile_split)
  then have "hd ?ys = hd (strip_chars P s)" using assms
    by (metis hd_append2)
  moreover have "?ys \<noteq> []" using ys assms by (metis append_is_Nil_conv)
  then have "\<not> P (hd ?ys)" by (rule hd_dropWhile)
  ultimately show ?thesis using last by simp
qed

lemma match_literal_Some_iff:
  "match_literal lit s = Some rest \<longleftrightarrow>
     (\<exists>m. s = m @ rest \<and> map sre_lower m = map sre_lower lit)"
proof (induction lit s rule: match_literal.induct)
  case (1 s)
  then show ?case by auto
next
  case (2 p ps)
  then show ?case by auto
next
  case (3 p ps c cs)
  show ?case
  proof (cases "sre_lower c = sre_lower p")
    case True
    with 3 show ?thesis
      by (auto simp: Cons_eq_append_conv map_eq_Cons_conv)
  next
    case False
    then show ?thesis
      by (auto simp: Cons_eq_append_conv map_eq_Cons_conv)
  qed
qed

lemma match_directive_None_iff:
  "match_directive lit s = None \<longleftrightarrow> match_literal lit s = None"
  by (simp add: match_directive_def split: option.splits)

lemma match_literal_None_iff:
  "match_literal lit s = None \<longleftrightarrow>
     (\<forall>m rest. s = m @ rest \<longrightarrow> map sre_lower m \<noteq> map sre_lower lit)"
proof -
  have "match_literal lit s = None \<longleftrightarrow> (\<forall>rest. match_literal lit s \<noteq> Some rest)"
    by auto
  then show ?thesis by (auto simp: match_literal_Some_iff)
qed

text \<open>
  The search fails exactly on the texts in which the literal occurs nowhere, letter case
  ignored.
\<close>

lemma re_search_None_iff:
  "re_search lit s = None \<longleftrightarrow>
     (\<forall>pre m post. s = pre @ m @ post \<longrightarrow> map sre_lower m \<noteq> map sre_lower lit)"
proof (induction s)
  case Nil
  show ?case
    by (simp add: match_directive_None_iff match_literal_None_iff)
next
  case (Cons c cs)
  have "re_search lit (c # cs) = None \<longleftrightarrow>
          match_literal lit (c # cs) = None \<and> re_search lit cs = None"
    by (simp add: match_directive_None_iff [symmetric] split: option.splits)
  also have "\<dots> \<longleftrightarrow>
      (\<forall>m rest. c # cs = m @ rest \<longrightarrow> map sre_lower m \<noteq> map sre_lower lit)
      \<and> (\<forall>pre m post. cs = pre @ m @ post \<longrightarrow> map sre_lower m \<noteq> map sre_lower lit)"
    by (simp only: match_literal_None_iff Cons.IH)
  also have "\<dots> \<longleftrightarrow>
      (\<forall>pre m post. c # cs = pre @ m @ post \<longrightarrow> map sre_lower m \<noteq> map sre_lower lit)"
  proof (intro iffI allI impI conjI)
    fix pre m post
    assume h: "(\<forall>m rest. c # cs = m @ rest \<longrightarrow> map sre_lower m \<noteq> map sre_lower lit)
      \<and> (\<forall>pre m post. cs = pre @ m @ post \<longrightarrow> map sre_lower m \<noteq> map sre_lower lit)"
      and eq: "c # cs = pre @ m @ post"
    show "map sre_lower m \<noteq> map sre_lower lit"
    proof (cases pre)
      case Nil
      with h eq show ?thesis by simp
    next
      case (Cons a pre')
      with eq have "cs = pre' @ m @ post" by simp
      with h show ?thesis by blast
    qed
  next
    fix m rest
    assume h: "\<forall>pre m post. c # cs = pre @ m @ post \<longrightarrow> map sre_lower m \<noteq> map sre_lower lit"
      and eq: "c # cs = m @ rest"
    from eq have "c # cs = [] @ m @ rest" by simp
    with h show "map sre_lower m \<noteq> map sre_lower lit" by blast
  next
    fix pre m post
    assume h: "\<forall>pre m post. c # cs = pre @ m @ post \<longrightarrow> map sre_lower m \<noteq> map sre_lower lit"
      and eq: "cs = pre @ m @ post"
    from eq have "c # cs = (c # pre) @ m @ post" by simp
    with h show "map sre_lower m \<noteq> map sre_lower lit" by blast
  qed
  finally show ?case .
qed

lemma leftmost_here:
  "match_directive lit s = Some g \<Longrightarrow> leftmost lit s [] s"
  by (auto simp: leftmost_def match_directive_def split: option.splits)

lemma leftmost_later:
  assumes "leftmost lit cs pre t" and "match_literal lit (c # cs) = None"
  shows "leftmost lit (c # cs) (c # pre) t"
  unfolding leftmost_def
proof (intro conjI allI impI)
  show "c # cs = (c # pre) @ t" using assms(1) by (simp add: leftmost_def)
  show "match_literal lit t \<noteq> None" using assms(1) by (simp add: leftmost_def)
  fix n assume n: "n < length (c # pre)"
  show "match_literal lit (drop n (c # cs)) = None"
  proof (cases n)
    case 0
    with assms(2) show ?thesis by simp
  next
    case (Suc k)
    with n have "k < length pre" by simp
    moreover from assms(1) have "\<forall>n<length pre. match_literal lit (drop n cs) = None"
      unfolding leftmost_def by (elim conjE)
    ultimately have "match_literal lit (drop k cs) = None"
      by simp
    with Suc show ?thesis by simp
  qed
qed

text \<open>A successful search reports the group of the leftmost match.\<close>

lemma re_search_Some_leftmost:
  "re_search lit s = Some g \<Longrightarrow>
     \<exists>pre t. leftmost lit s pre t \<and> match_directive lit t = Some g"
proof (induction s)
  case Nil
  then have "match_directive lit [] = Some g" by simp
  then show ?case using leftmost_here by fast
next
  case (Cons c cs)
  show ?case
  proof (cases "match_directive lit (c # cs)")
    case (Some g')
    with Cons.prems have "match_directive lit (c # cs) = Some g" by simp
    then show ?thesis using leftmost_here by fast
  next
    case None
    with Cons.prems have "re_search lit cs = Some g" by simp
    from Cons.IH [OF this] obtain pre t where
      l: "leftmost lit cs pre t" and m: "match_directive lit t = Some g"
      by blast
    from None have "match_literal lit (c # cs) = None"
      by (simp add: match_directive_None_iff)
    from leftmost_later [OF l this] m show ?thesis by blast
  qed
qed

text \<open>
  Claim C3. On \<open>timeline: June 2026\<close> the parser stores \<open>June 2026\<close> under the
  context key \<open>timeline\<close> and returns \<open>Timeline recorded: June 2026.\<close>; on
  \<open>Prep Level: advanced\<close>, whose letters differ in case from the pattern, it stores
  \<open>advanced\<close> under \<open>prep_level\<close>; on a text in which neither pattern is found it
  returns \<open>None\<close> and leaves the session state as it was.
\<close>

theorem parse_special_commands_examples:
  "parse_special_commands ''timeline: June 2026'' st =
     (Some ''Timeline recorded: June 2026.'',
      st\<lparr>session_context := (session_context st)(''timeline'' \<mapsto> ''June 2026'')\<rparr>)
   \<and> parse_special_commands ''Prep Level: advanced'' st =
     (Some ''Prep level recorded: advanced.'',
      st\<lparr>session_context := (session_context st)(''prep_level'' \<mapsto> ''advanced'')\<rparr>)
   \<and> (re_search ''timeline:'' ui = None \<and> re_search ''prep level:'' ui = None \<longrightarrow>
        parse_special_commands ui st = (None, st))"
proof -
  have t: "re_search ''timeline:'' ''timeline: June 2026'' = Some ''June 2026''"
    by code_simp
  have ts: "py_strip ''June 2026'' = ''June 2026''"
    by code_simp
  have p0: "re_search ''timeline:'' ''Prep Level: advanced'' = None"
    by code_simp
  have p: "re_search ''prep level:'' ''Prep Level: advanced'' = Some ''advanced''"
    by code_simp
  have ps: "py_strip ''advanced'' = ''advanced''"
    by code_simp
  have a: "parse_special_commands ''timeline: June 2026'' st =
     (Some ''Timeline recorded: June 2026.'',
      st\<lparr>session_context := (session_context st)(''timeline'' \<mapsto> ''June 2026'')\<rparr>)"
    unfolding parse_special_commands_unfold t by (simp add: ts)
  have b: "parse_special_commands ''Prep Level: advanced'' st =
     (Some ''Prep level recorded: advanced.'',
      st\<lparr>session_context := (session_context st)(''prep_level'' \<mapsto> ''advanced'')\<rparr>)"
    unfolding parse_special_commands_unfold p0 p by (simp add: ps)
  have c: "parse_special_commands ui st = (None, st)"
    if "re_search ''timeline:'' ui = None" and "re_search ''prep level:'' ui = None"
    unfolding parse_special_commands_unfold that by simp
  from a b c show ?thesis by blast
qed

theorem parse_special_commands_examples_witness:
  "re_search ''timeline:'' ''What should I learn next?'' = None
   \<and> re_search ''prep level:'' ''What should I learn next?'' = None
   \<and> parse_special_commands ''What should I learn next?'' ana_state = (None, ana_state)
   \<and> session_context (snd (parse_special_commands ''timeline: June 2026'' ana_state))
         ''timeline'' = Some ''June 2026''
   \<and> session_context (snd (parse_special_commands ''Prep Level: advanced'' ana_state))
         ''prep_level'' = Some ''advanced''"
proof -
  have n1: "re_search ''timeline:'' ''What should I learn next?'' = None"
    by code_simp
  have n2: "re_search ''prep level:'' ''What should I learn next?'' = None"
    by code_simp
  show ?thesis
    using parse_special_commands_examples [of ana_state "''What should I learn next?''"] n1 n2
    by (simp del: re_search.simps)
qed

text \<open>
  Claim C4. Let \<open>g\<close> be the group captured by the directive that the parser handles:
  the timeline directive, or the preparation level directive when there is no timeline
  directive. When \<open>g\<close> stripped of white space is empty, the parser returns the value
  missing message and the session state is unchanged. Otherwise it stores under the
  directive's key the stripped group, which is \<open>g\<close> without some white space at both
  ends and neither begins nor ends with white space.
\<close>

theorem parse_special_commands_value:
  assumes "key = ''timeline'' \<and> re_search ''timeline:'' ui = Some g
         \<or> key = ''prep_level'' \<and> re_search ''timeline:'' ui = None
             \<and> re_search ''prep level:'' ui = Some g"
  shows "(py_strip g = [] \<longrightarrow>
            parse_special_commands ui st =
              (Some (key_title key @ '' value missing. Please provide a value.''), st))
    \<and> (py_strip g \<noteq> [] \<longrightarrow>
            parse_special_commands ui st =
              (Some (key_title key @ '' recorded: '' @ py_strip g @ ''.''),
               st\<lparr>session_context := (session_context st)(key \<mapsto> py_strip g)\<rparr>)
            \<and> \<not> py_isspace (hd (py_strip g)) \<and> \<not> py_isspace (last (py_strip g)))
    \<and> (\<exists>a b. g = a @ py_strip g @ b \<and> list_all py_isspace a \<and> list_all py_isspace b)"
proof -
  have ends: "\<not> py_isspace (hd (py_strip g)) \<and> \<not> py_isspace (last (py_strip g))"
    if "py_strip g \<noteq> []"
    using that strip_chars_ends [of py_isspace g] by (simp add: py_strip_def)
  have dec: "\<exists>a b. g = a @ py_strip g @ b \<and> list_all py_isspace a \<and> list_all py_isspace b"
    using strip_chars_decompose [of g py_isspace] by (simp add: py_strip_def)
  from assms show ?thesis
  proof (elim disjE conjE)
    assume "key = ''timeline''" and "re_search ''timeline:'' ui = Some g"
    then show ?thesis
      using ends dec
      by (simp add: parse_special_commands_unfold key_title_timeline)
  next
    assume "key = ''prep_level''" and "re_search ''timeline:'' ui = None"
      and "re_search ''prep level:'' ui = Some g"
    then show ?thesis
      using ends dec
      by (simp add: parse_special_commands_unfold key_title_prep_level)
  qed
qed


theorem parse_special_commands_value_witness:
  "re_search ''timeline:'' ''timeline:   '' = Some []
   \<and> parse_special_commands ''timeline:   '' ana_state =
       (Some ''Timeline value missing. Please provide a value.'', ana_state)
   \<and> re_search ''timeline:'' ''My prep level:   very high  '' = None
   \<and> re_search ''prep level:'' ''My prep level:   very high  '' = Some ''very high  ''
   \<and> parse_special_commands ''My prep level:   very high  '' ana_state =
       (Some ''Prep level recorded: very high.'',
        ana_state\<lparr>session_context := [''prep_level'' \<mapsto> ''very high'']\<rparr>)"
proof -
  have t: "re_search ''timeline:'' ''timeline:   '' = Some []"
    by code_simp
  have ts: "py_strip [] = []"
    by code_simp
  have p0: "re_search ''timeline:'' ''My prep level:   very high  '' = None"
    by code_simp
  have p: "re_search ''prep level:'' ''My prep level:   very high  '' = Some ''very high  ''"
    by code_simp
  have ps: "py_strip ''very high  '' = ''very high''"
    by code_simp
  have c: "session_context ana_state = Map.empty"
    by (simp add: ana_state_def)
  have a: "parse_special_commands ''timeline:   '' ana_state =
       (Some ''Timeline value missing. Please provide a value.'', ana_state)"
    using parse_special_commands_value [of "''timeline''" "''timeline:   ''" "[]" ana_state] t ts
    by (simp add: key_title_timeline del: re_search.simps)
  have b: "parse_special_commands ''My prep level:   very high  '' ana_state =
       (Some ''Prep level recorded: very high.'',
        ana_state\<lparr>session_context := [''prep_level'' \<mapsto> ''very high'']\<rparr>)"
    using parse_special_commands_value
      [of "''prep_level''" "''My prep level:   very high  ''" "''very high  ''" ana_state]
      p0 p ps c
    by (simp add: key_title_prep_level del: re_search.simps)
  from t p0 p a b show ?thesis by (simp del: re_search.simps)
qed

text \<open>
  Claim C5. The parser handles one directive, the first of the fixed order whose pattern
  is found, and nothing else of the text. When the timeline pattern is found with group
  \<open>g\<close>, the result is the timeline's whatever else the text holds: the stripped group
  is stored under \<open>timeline\<close> and confirmed, or, when it is empty, the value missing
  message is returned and nothing is stored; no other key changes. The preparation level
  directive is handled, in the same way under \<open>prep_level\<close>, only when the timeline
  pattern is not found. So a call changes at most one context key.
\<close>

theorem parse_special_commands_first_directive:
  "(snd (parse_special_commands ui st) = st
      \<or> (\<exists>k v. snd (parse_special_commands ui st) =
                  st\<lparr>session_context := (session_context st)(k \<mapsto> v)\<rparr>))
   \<and> (re_search ''timeline:'' ui = Some g \<longrightarrow>
         parse_special_commands ui st =
           (if py_strip g = [] then
              (Some ''Timeline value missing. Please provide a value.'', st)
            else
              (Some (''Timeline recorded: '' @ py_strip g @ ''.''),
               st\<lparr>session_context := (session_context st)(''timeline'' \<mapsto> py_strip g)\<rparr>))
         \<and> fst (parse_special_commands ui st) =
           Some (if py_strip g = [] then ''Timeline value missing. Please provide a value.''
                 else ''Timeline recorded: '' @ py_strip g @ ''.'')
         \<and> session_context (snd (parse_special_commands ui st)) ''timeline'' =
             (if py_strip g = [] then session_context st ''timeline'' else Some (py_strip g))
         \<and> (\<forall>k. k \<noteq> ''timeline'' \<longrightarrow>
               session_context (snd (parse_special_commands ui st)) k = session_context st k)
         \<and> session_context (snd (parse_special_commands ui st)) ''prep_level'' =
             session_context st ''prep_level'')
   \<and> (re_search ''timeline:'' ui = None \<and> re_search ''prep level:'' ui = Some g \<longrightarrow>
         parse_special_commands ui st =
           (if py_strip g = [] then
              (Some ''Prep level value missing. Please provide a value.'', st)
            else
              (Some (''Prep level recorded: '' @ py_strip g @ ''.''),
               st\<lparr>session_context := (session_context st)(''prep_level'' \<mapsto> py_strip g)\<rparr>))
         \<and> session_context (snd (parse_special_commands ui st)) ''prep_level'' =
             (if py_strip g = [] then session_context st ''prep_level'' else Some (py_strip g))
         \<and> (\<forall>k. k \<noteq> ''prep_level'' \<longrightarrow>
               session_context (snd (parse_special_commands ui st)) k = session_context st k))"
proof -
  have one: "snd (parse_special_commands ui st) = st
      \<or> (\<exists>k v. snd (parse_special_commands ui st) =
                  st\<lparr>session_context := (session_context st)(k \<mapsto> v)\<rparr>)"
    unfolding parse_special_commands_unfold
    by (auto split: option.splits)
  have t: "parse_special_commands ui st =
           (if py_strip g = [] then
              (Some ''Timeline value missing. Please provide a value.'', st)
            else
              (Some (''Timeline recorded: '' @ py_strip g @ ''.''),
               st\<lparr>session_context := (session_context st)(''timeline'' \<mapsto> py_strip g)\<rparr>))"
    if "re_search ''timeline:'' ui = Some g"
    unfolding parse_special_commands_unfold that by simp
  have p: "parse_special_commands ui st =
           (if py_strip g = [] then
              (Some ''Prep level value missing. Please provide a value.'', st)
            else
              (Some (''Prep level recorded: '' @ py_strip g @ ''.''),
               st\<lparr>session_context := (session_context st)(''prep_level'' \<mapsto> py_strip g)\<rparr>))"
    if "re_search ''timeline:'' ui = None" and "re_search ''prep level:'' ui = Some g"
    unfolding parse_special_commands_unfold that by simp
  show ?thesis
  proof (intro conjI impI)
    show "snd (parse_special_commands ui st) = st
      \<or> (\<exists>k v. snd (parse_special_commands ui st) =
                  st\<lparr>session_context := (session_context st)(k \<mapsto> v)\<rparr>)"
      by (rule one)
  next
    assume h: "re_search ''timeline:'' ui = Some g"
    show "parse_special_commands ui st =
           (if py_strip g = [] then
              (Some ''Timeline value missing. Please provide a value.'', st)
            else
              (Some (''Timeline recorded: '' @ py_strip g @ ''.''),
               st\<lparr>session_context := (session_context st)(''timeline'' \<mapsto> py_strip g)\<rparr>))"
      by (rule t [OF h])
    show "fst (parse_special_commands ui st) =
           Some (if py_strip g = [] then ''Timeline value missing. Please provide a value.''
                 else ''Timeline recorded: '' @ py_strip g @ ''.'')"
      by (simp add: t [OF h])
    show "session_context (snd (parse_special_commands ui st)) ''timeline'' =
             (if py_strip g = [] then session_context st ''timeline'' else Some (py_strip g))"
      by (simp add: t [OF h])
    show "\<forall>k. k \<noteq> ''timeline'' \<longrightarrow>
               session_context (snd (parse_special_commands ui st)) k = session_context st k"
      by (simp add: t [OF h])
    show "session_context (snd (parse_special_commands ui st)) ''prep_level'' =
             session_context st ''prep_level''"
      by (simp add: t [OF h])
  next
    assume h: "re_search ''timeline:'' ui = None \<and> re_search ''prep level:'' ui = Some g"
    then have h1: "re_search ''timeline:'' ui = None"
      and h2: "re_search ''prep level:'' ui = Some g"
      by simp_all
    show "parse_special_commands ui st =
           (if py_strip g = [] then
              (Some ''Prep level value missing. Please provide a value.'', st)
            else
              (Some (''Prep level recorded: '' @ py_strip g @ ''.''),
               st\<lparr>session_context := (session_context st)(''prep_level'' \<mapsto> py_strip g)\<rparr>))"
      by (rule p [OF h1 h2])
    show "session_context (snd (parse_special_commands ui st)) ''prep_level'' =
             (if py_strip g = [] then session_context st ''prep_level'' else Some (py_strip g))"
      by (simp add: p [OF h1 h2])
    show "\<forall>k. k \<noteq> ''prep_level'' \<longrightarrow>
               session_context (snd (parse_special_commands ui st)) k = session_context st k"
      by (simp add: p [OF h1 h2])
  qed
qed

text \<open>
  A text with both directives: the timeline is recorded and the preparation level is
  not. A text with an empty timeline after a preparation level: the timeline's value
  missing message, and nothing recorded. A text with the preparation level only.
\<close>

theorem parse_special_commands_first_directive_witness:
  "re_search ''timeline:'' ''prep level: high, timeline: soon'' = Some ''soon''
   \<and> re_search ''prep level:'' ''prep level: high, timeline: soon'' = Some ''high, timeline: soon''
   \<and> parse_special_commands ''prep level: high, timeline: soon'' ana_state =
       (Some ''Timeline recorded: soon.'',
        ana_state\<lparr>session_context := [''timeline'' \<mapsto> ''soon'']\<rparr>)
   \<and> session_context (snd (parse_special_commands ''prep level: high, timeline: soon'' ana_state))
         ''timeline'' = Some ''soon''
   \<and> session_context (snd (parse_special_commands ''prep level: high, timeline: soon'' ana_state))
         ''prep_level'' = None
   \<and> re_search ''prep level:'' ''prep level: advanced timeline:'' = Some ''advanced timeline:''
   \<and> parse_special_commands ''prep level: advanced timeline:'' ana_state =
       (Some ''Timeline value missing. Please provide a value.'', ana_state)
   \<and> parse_special_commands ''prep level: high'' ana_state =
       (Some ''Prep level recorded: high.'',
        ana_state\<lparr>session_context := [''prep_level'' \<mapsto> ''high'']\<rparr>)"
proof -
  have t: "re_search ''timeline:'' ''prep level: high, timeline: soon'' = Some ''soon''"
    by code_simp
  have p: "re_search ''prep level:'' ''prep level: high, timeline: soon'' =
      Some ''high, timeline: soon''"
    by code_simp
  have ts: "py_strip ''soon'' = ''soon''"
    by code_simp
  have c: "session_context ana_state = Map.empty"
    by (simp add: ana_state_def)
  have a: "parse_special_commands ''prep level: high, timeline: soon'' ana_state =
       (Some ''Timeline recorded: soon.'',
        ana_state\<lparr>session_context := [''timeline'' \<mapsto> ''soon'']\<rparr>)
     \<and> session_context (snd (parse_special_commands ''prep level: high, timeline: soon'' ana_state))
         ''timeline'' = Some ''soon''
     \<and> session_context (snd (parse_special_commands ''prep level: high, timeline: soon'' ana_state))
         ''prep_level'' = None"
    using parse_special_commands_first_directive
      [of "''prep level: high, timeline: soon''" ana_state "''soon''"] t ts c
    by (simp del: re_search.simps)
  have t2: "re_search ''timeline:'' ''prep level: advanced timeline:'' = Some []"
    by code_simp
  have p2: "re_search ''prep level:'' ''prep level: advanced timeline:'' = Some ''advanced timeline:''"
    by code_simp
  have es: "py_strip [] = []"
    by code_simp
  have b: "parse_special_commands ''prep level: advanced timeline:'' ana_state =
       (Some ''Timeline value missing. Please provide a value.'', ana_state)"
    using parse_special_commands_first_directive
      [of "''prep level: advanced timeline:''" ana_state "[]"] t2 es
    by (simp del: re_search.simps)
  have t3: "re_search ''timeline:'' ''prep level: high'' = None"
    by code_simp
  have p3: "re_search ''prep level:'' ''prep level: high'' = Some ''high''"
    by code_simp
  have hs: "py_strip ''high'' = ''high''"
    by code_simp
  have d: "parse_special_commands ''prep level: high'' ana_state =
       (Some ''Prep level recorded: high.'',
        ana_state\<lparr>session_context := [''prep_level'' \<mapsto> ''high'']\<rparr>)"
    using parse_special_commands_first_directive
      [of "''prep level: high''" ana_state "''high''"] t3 p3 hs c
    by (simp del: re_search.simps)
  from t p p2 a b d show ?thesis by (simp del: re_search.simps)
qed

subsection \<open>News fetcher\<close>

lemma article_pairs_Inr:
  "list_all2 (\<lambda>a item. json_item a ''title'' = Inr (fst item) \<and> json_item a ''url'' = Inr (snd item))
     arts items \<Longrightarrow> article_pairs arts = Inr items"
proof (induction arts arbitrary: items)
  case Nil
  then show ?case by simp
next
  case (Cons a as)
  then obtain item rest where items: "items = item # rest"
    and a: "json_item a ''title'' = Inr (fst item)" "json_item a ''url'' = Inr (snd item)"
    and rest: "list_all2 (\<lambda>a item. json_item a ''title'' = Inr (fst item)
                 \<and> json_item a ''url'' = Inr (snd item)) as rest"
    by (auto simp: list_all2_Cons1)
  from Cons.IH [OF rest] a items show ?case by simp
qed

lemma article_pairs_Inl:
  "list_ex (\<lambda>a. isl (json_item a ''title'') \<or> isl (json_item a ''url'')) arts \<Longrightarrow>
     isl (article_pairs arts)"
proof (induction arts)
  case Nil
  then show ?case by simp
next
  case (Cons a as)
  show ?case
  proof (cases "isl (json_item a ''title'') \<or> isl (json_item a ''url'')")
    case True
    then show ?thesis by (auto split: sum.splits)
  next
    case False
    with Cons.prems have "list_ex (\<lambda>a. isl (json_item a ''title'') \<or> isl (json_item a ''url'')) as"
      by simp
    from Cons.IH [OF this] show ?thesis by (auto split: sum.splits)
  qed
qed

lemma fetch_industry_news_catch:
  "fetch_industry_news e industry =
     (if isl (fetch_industry_news_try e (news_url e industry)) then Inr []
      else Inr (projr (fetch_industry_news_try e (news_url e industry))))"
  by (simp add: fetch_industry_news_def split: sum.splits)

text \<open>
  Claim C6. The news fetcher never raises: it always returns a list. Any exception of
  the block gives the empty list, in particular a transport error of the HTTP client, an
  error status, a body that is not JSON, and an article without title or url. When the
  response is good and its body is an object whose articles are a list of objects each
  with a title and a url, the result is the list of their (title, url) pairs, in order.
\<close>

theorem fetch_industry_news_outcomes:
  "(\<exists>items. fetch_industry_news e industry = Inr items)
   \<and> (fetch_industry_news_try e (news_url e industry) = Inl x \<longrightarrow>
        fetch_industry_news e industry = Inr [])
   \<and> (requests_get e (news_url e industry) = Inl x \<longrightarrow>
        fetch_industry_news e industry = Inr [])
   \<and> (requests_get e (news_url e industry) = Inr r
        \<and> 400 \<le> status_code r \<and> status_code r < 600 \<longrightarrow>
        fetch_industry_news e industry = Inr [])
   \<and> (requests_get e (news_url e industry) = Inr r \<and> body_json r = None \<longrightarrow>
        fetch_industry_news e industry = Inr [])
   \<and> (requests_get e (news_url e industry) = Inr r
        \<and> body_json r = Some (JObj kvs) \<and> map_of kvs ''articles'' = Some (JArr arts)
        \<and> list_ex (\<lambda>a. isl (json_item a ''title'') \<or> isl (json_item a ''url'')) arts \<longrightarrow>
        fetch_industry_news e industry = Inr [])
   \<and> (requests_get e (news_url e industry) = Inr r
        \<and> \<not> (400 \<le> status_code r \<and> status_code r < 600)
        \<and> body_json r = Some (JObj kvs) \<and> map_of kvs ''articles'' = Some (JArr arts)
        \<and> list_all2 (\<lambda>a item. json_item a ''title'' = Inr (fst item)
                        \<and> json_item a ''url'' = Inr (snd item)) arts items \<longrightarrow>
        fetch_industry_news e industry = Inr items)"
proof (intro conjI impI)
  show "\<exists>items. fetch_industry_news e industry = Inr items"
    by (simp add: fetch_industry_news_def split: sum.splits)
next
  assume "fetch_industry_news_try e (news_url e industry) = Inl x"
  then show "fetch_industry_news e industry = Inr []"
    by (simp add: fetch_industry_news_def)
next
  assume "requests_get e (news_url e industry) = Inl x"
  then show "fetch_industry_news e industry = Inr []"
    by (simp add: fetch_industry_news_def fetch_industry_news_try_def)
next
  assume "requests_get e (news_url e industry) = Inr r
        \<and> 400 \<le> status_code r \<and> status_code r < 600"
  then show "fetch_industry_news e industry = Inr []"
    by (simp add: fetch_industry_news_def fetch_industry_news_try_def raise_for_status_def)
next
  assume "requests_get e (news_url e industry) = Inr r \<and> body_json r = None"
  then show "fetch_industry_news e industry = Inr []"
    by (simp add: fetch_industry_news_def fetch_industry_news_try_def split: sum.splits)
next
  assume h: "requests_get e (news_url e industry) = Inr r
        \<and> body_json r = Some (JObj kvs) \<and> map_of kvs ''articles'' = Some (JArr arts)
        \<and> list_ex (\<lambda>a. isl (json_item a ''title'') \<or> isl (json_item a ''url'')) arts"
  then have "isl (article_pairs arts)" by (simp add: article_pairs_Inl)
  then obtain x' where "article_pairs arts = Inl x'" by (cases "article_pairs arts") auto
  with h show "fetch_industry_news e industry = Inr []"
    by (simp add: fetch_industry_news_def fetch_industry_news_try_def dict_get_def
        split: sum.splits)
next
  assume h: "requests_get e (news_url e industry) = Inr r
        \<and> \<not> (400 \<le> status_code r \<and> status_code r < 600)
        \<and> body_json r = Some (JObj kvs) \<and> map_of kvs ''articles'' = Some (JArr arts)
        \<and> list_all2 (\<lambda>a item. json_item a ''title'' = Inr (fst item)
                        \<and> json_item a ''url'' = Inr (snd item)) arts items"
  then have "article_pairs arts = Inr items" by (simp add: article_pairs_Inr)
  with h show "fetch_industry_news e industry = Inr items"
    by (auto simp: fetch_industry_news_def fetch_industry_news_try_def dict_get_def
        raise_for_status_def)
qed


theorem fetch_industry_news_outcomes_witness:
  "fetch_industry_news
     (example_env (\<lambda>k r. Inr []) (\<lambda>u. Inl (Exception ''ConnectionError''))) ''Finance'' = Inr []
   \<and> fetch_industry_news
     (example_env (\<lambda>k r. Inr [])
        (\<lambda>u. Inr \<lparr>status_code = 401, body_json = Some (JObj [(''status'', JStr ''error'')])\<rparr>))
     ''Finance'' = Inr []
   \<and> fetch_industry_news
     (example_env (\<lambda>k r. Inr []) (\<lambda>u. Inr \<lparr>status_code = 200, body_json = None\<rparr>))
     ''Finance'' = Inr []
   \<and> fetch_industry_news
     (example_env (\<lambda>k r. Inr [])
        (\<lambda>u. Inr \<lparr>status_code = 200,
                   body_json = Some (JObj [(''articles'',
                     JArr [JObj [(''title'', JStr ''Rates rise''), (''url'', JStr ''https://n.example/1'')],
                           JObj [(''title'', JStr ''No link'')]])])\<rparr>))
     ''Finance'' = Inr []
   \<and> fetch_industry_news
     (example_env (\<lambda>k r. Inr [])
        (\<lambda>u. Inr \<lparr>status_code = 200,
                   body_json = Some (JObj [(''status'', JStr ''ok''), (''articles'',
                     JArr [JObj [(''title'', JStr ''Rates rise''), (''url'', JStr ''https://n.example/1'')],
                           JObj [(''source'', JNull), (''title'', JNull),
                                 (''url'', JStr ''https://n.example/2'')]])])\<rparr>))
     ''Finance'' =
       Inr [(JStr ''Rates rise'', JStr ''https://n.example/1''), (JNull, JStr ''https://n.example/2'')]"
proof -
  let ?svc = "\<lambda>(k::string) (r::request). (Inr [] :: exn + string)"
  let ?e1 = "example_env ?svc (\<lambda>u. Inl (Exception ''ConnectionError''))"
  let ?r2 = "\<lparr>status_code = 401, body_json = Some (JObj [(''status'', JStr ''error'')])\<rparr>"
  let ?r3 = "\<lparr>status_code = 200, body_json = None\<rparr>"
  let ?a4 = "[JObj [(''title'', JStr ''Rates rise''), (''url'', JStr ''https://n.example/1'')],
              JObj [(''title'', JStr ''No link'')]]"
  let ?k4 = "[(''articles'', JArr ?a4)]"
  let ?r4 = "\<lparr>status_code = 200, body_json = Some (JObj ?k4)\<rparr>"
  let ?a5 = "[JObj [(''title'', JStr ''Rates rise''), (''url'', JStr ''https://n.example/1'')],
              JObj [(''source'', JNull), (''title'', JNull), (''url'', JStr ''https://n.example/2'')]]"
  let ?k5 = "[(''status'', JStr ''ok''), (''articles'', JArr ?a5)]"
  let ?r5 = "\<lparr>status_code = 200, body_json = Some (JObj ?k5)\<rparr>"
  let ?i5 = "[(JStr ''Rates rise'', JStr ''https://n.example/1''), (JNull, JStr ''https://n.example/2'')]"
  have 1: "fetch_industry_news ?e1 ''Finance'' = Inr []"
    using fetch_industry_news_outcomes
      [of ?e1 "''Finance''" "Exception ''ConnectionError''"]
    by (simp add: example_env_def)
  have 2: "fetch_industry_news (example_env ?svc (\<lambda>u. Inr ?r2)) ''Finance'' = Inr []"
    using fetch_industry_news_outcomes
      [of "example_env ?svc (\<lambda>u. Inr ?r2)" "''Finance''" _ ?r2]
    by (simp add: example_env_def)
  have 3: "fetch_industry_news (example_env ?svc (\<lambda>u. Inr ?r3)) ''Finance'' = Inr []"
    using fetch_industry_news_outcomes
      [of "example_env ?svc (\<lambda>u. Inr ?r3)" "''Finance''" _ ?r3]
    by (simp add: example_env_def)
  have 4: "fetch_industry_news (example_env ?svc (\<lambda>u. Inr ?r4)) ''Finance'' = Inr []"
    using fetch_industry_news_outcomes
      [of "example_env ?svc (\<lambda>u. Inr ?r4)" "''Finance''" _ ?r4 ?k4 ?a4]
    by (simp add: example_env_def)
  have 5: "fetch_industry_news (example_env ?svc (\<lambda>u. Inr ?r5)) ''Finance'' = Inr ?i5"
    using fetch_industry_news_outcomes
      [of "example_env ?svc (\<lambda>u. Inr ?r5)" "''Finance''" _ ?r5 ?k5 ?a5 ?i5]
    by (simp add: example_env_def)
  from 1 2 3 4 5 show ?thesis by simp
qed

subsection \<open>Mentor chat\<close>

lemma parse_special_commands_chat_history:
  "chat_history (snd (parse_special_commands ui st)) = chat_history st"
  unfolding parse_special_commands_unfold by (simp split: option.splits)

lemma parse_special_commands_fst:
  "fst (parse_special_commands ui (append_turn r c st)) = fst (parse_special_commands ui st)"
  unfolding parse_special_commands_unfold by (simp split: option.splits)

lemma parse_special_commands_None:
  "fst (parse_special_commands ui st) = None \<Longrightarrow> parse_special_commands ui st = (None, st)"
  unfolding parse_special_commands_unfold by (simp split: option.splits if_splits)

lemma mentor_request_append_turn:
  "mentor_request e ui (append_turn r c st) = mentor_request e ui st"
  by (simp add: mentor_request_def append_turn_def)

lemma get_ai_mentor_response_append_turn:
  "get_ai_mentor_response e ui (append_turn r c st) = get_ai_mentor_response e ui st"
  by (simp add: get_ai_mentor_response_def mentor_request_append_turn split: sum.splits)

lemma append_turn_twice:
  "append_turn r2 c2 (append_turn r1 c1 st) =
     st\<lparr>chat_history := chat_history st @ [\<lparr>role = r1, content = c1\<rparr>, \<lparr>role = r2, content = c2\<rparr>]\<rparr>"
  by (simp add: append_turn_def)

text \<open>
  Claim C7. A question is submitted, it holds no directive, and the completion call made
  for it raises an exception with detail \<open>detail\<close>. Then \<open>show_mentor_chat\<close> ends
  normally, and the chat history has grown by exactly two turns: the user's question, and
  an assistant turn whose content is \<open>Sorry, there was an error: \<close> followed by the
  detail.
\<close>

theorem show_mentor_chat_service_error:
  assumes "ui \<noteq> []"
    and "fst (parse_special_commands ui st) = None"
    and "get_openai_client e = Inr k"
    and "completion e k (mentor_request e ui st) = Inl (Exception detail)"
  shows "show_mentor_chat e (Some ui) st =
      (Inr (),
       st\<lparr>chat_history := chat_history st @
            [\<lparr>role = ''user'', content = ui\<rparr>,
             \<lparr>role = ''assistant'', content = ''Sorry, there was an error: '' @ detail\<rparr>]\<rparr>)
    \<and> length (chat_history (snd (show_mentor_chat e (Some ui) st))) =
        length (chat_history st) + 2"
proof -
  let ?st1 = "append_turn ''user'' ui st"
  have "fst (parse_special_commands ui ?st1) = None"
    using assms(2) by (simp add: parse_special_commands_fst)
  then have p: "parse_special_commands ui ?st1 = (None, ?st1)"
    by (rule parse_special_commands_None)
  have g: "get_ai_mentor_response e ui ?st1 = Inl (Exception detail)"
    using assms(3,4) by (simp add: get_ai_mentor_response_def mentor_request_append_turn)
  have "show_mentor_chat e (Some ui) st =
      (Inr (), append_turn ''assistant'' (''Sorry, there was an error: '' @ detail) ?st1)"
    using assms(1) p g by (simp add: show_mentor_chat_def truthy_def)
  then show ?thesis by (simp add: append_turn_twice)
qed

theorem show_mentor_chat_service_error_witness:
  "show_mentor_chat
     (example_env (\<lambda>k r. Inl (Exception ''Rate limit reached''))
        (\<lambda>u. Inl (Exception ''ConnectionError'')))
     (Some ''How do I become a data scientist?'') ana_state =
   (Inr (),
    ana_state\<lparr>chat_history :=
      [\<lparr>role = ''user'', content = ''How do I become a data scientist?''\<rparr>,
       \<lparr>role = ''assistant'', content = ''Sorry, there was an error: Rate limit reached''\<rparr>]\<rparr>)"
proof -
  let ?e = "example_env (\<lambda>k r. Inl (Exception ''Rate limit reached''))
        (\<lambda>u. Inl (Exception ''ConnectionError''))"
  have n: "fst (parse_special_commands ''How do I become a data scientist?'' ana_state) = None"
    by code_simp
  have k: "get_openai_client ?e = Inr ''sk-test''"
    by code_simp
  have c: "completion ?e ''sk-test''
      (mentor_request ?e ''How do I become a data scientist?'' ana_state) =
      Inl (Exception ''Rate limit reached'')"
    by (simp add: example_env_def)
  have h: "chat_history ana_state = []"
    by (simp add: ana_state_def)
  show ?thesis
    using show_mentor_chat_service_error [OF _ n k c] h by simp
qed

text \<open>
  Claim C8. When the completion call of the skill suggestion raises, the same exception
  leaves \<open>fetch_dynamic_skills\<close> and then \<open>get_skills_for_user\<close>: neither catches
  it. The chat page differs: no exception deriving from \<open>Exception\<close> ever leaves
  \<open>show_mentor_chat\<close>.
\<close>

theorem fetch_dynamic_skills_unguarded:
  assumes "get_openai_client e = Inr k"
    and "completion e k (skills_request e p) = Inl x"
  shows "fetch_dynamic_skills e p = Inl x \<and> get_skills_for_user e p = Inl x
    \<and> (\<forall>ui st detail. fst (show_mentor_chat e ui st) \<noteq> Inl (Exception detail))"
proof -
  have f: "fetch_dynamic_skills e p = Inl x"
    using assms by (simp add: fetch_dynamic_skills_def)
  then have g: "get_skills_for_user e p = Inl x"
    by (simp add: get_skills_for_user_def Let_def)
  have "fst (show_mentor_chat e ui st) \<noteq> Inl (Exception detail)" for ui st detail
    by (simp add: show_mentor_chat_def Let_def split: prod.splits option.splits sum.splits exn.splits)
  with f g show ?thesis by simp
qed

theorem fetch_dynamic_skills_unguarded_witness:
  "fetch_dynamic_skills
     (example_env (\<lambda>k r. Inl (Exception ''Rate limit reached''))
        (\<lambda>u. Inl (Exception ''ConnectionError''))) ana = Inl (Exception ''Rate limit reached'')
   \<and> get_skills_for_user
     (example_env (\<lambda>k r. Inl (Exception ''Rate limit reached''))
        (\<lambda>u. Inl (Exception ''ConnectionError''))) ana = Inl (Exception ''Rate limit reached'')"
proof -
  let ?e = "example_env (\<lambda>k r. Inl (Exception ''Rate limit reached''))
        (\<lambda>u. Inl (Exception ''ConnectionError''))"
  have k: "get_openai_client ?e = Inr ''sk-test''"
    by code_simp
  have c: "completion ?e ''sk-test'' (skills_request ?e ana) = Inl (Exception ''Rate limit reached'')"
    by (simp add: example_env_def)
  show ?thesis
    using fetch_dynamic_skills_unguarded [OF k c] by simp
qed

lemma show_mentor_chat_appends:
  "\<exists>new. chat_history (snd (show_mentor_chat e ui st)) = chat_history st @ new
     \<and> length new \<le> 2"
proof (cases "truthy ui")
  case False
  then show ?thesis by (simp add: show_mentor_chat_def)
next
  case True
  then obtain s where ui: "ui = Some s" by (cases ui) (auto simp: truthy_def)
  let ?st1 = "append_turn ''user'' s st"
  obtain response st2 where p: "parse_special_commands s ?st1 = (response, st2)"
    by (cases "parse_special_commands s ?st1")
  have "chat_history st2 = chat_history ?st1"
    using parse_special_commands_chat_history [of s ?st1] p by simp
  then have h2: "chat_history st2 = chat_history st @ [\<lparr>role = ''user'', content = s\<rparr>]"
    by (simp add: append_turn_def)
  show ?thesis
    using True ui p h2
    by (auto simp: show_mentor_chat_def append_turn_def
        split: option.splits sum.splits exn.splits)
qed


text \<open>Every submitted question that is handled to the end adds two turns.\<close>

lemma show_mentor_chat_two_turns:
  assumes "truthy ui" and "fst (show_mentor_chat e ui st) = Inr ()"
  shows "length (chat_history (snd (show_mentor_chat e ui st))) = length (chat_history st) + 2"
proof -
  from assms(1) obtain s where ui: "ui = Some s" by (cases ui) (auto simp: truthy_def)
  let ?st1 = "append_turn ''user'' s st"
  obtain response st2 where p: "parse_special_commands s ?st1 = (response, st2)"
    by (cases "parse_special_commands s ?st1")
  have "chat_history st2 = chat_history ?st1"
    using parse_special_commands_chat_history [of s ?st1] p by simp
  then have h2: "chat_history st2 = chat_history st @ [\<lparr>role = ''user'', content = s\<rparr>]"
    by (simp add: append_turn_def)
  show ?thesis
    using assms ui p h2
    by (auto simp: show_mentor_chat_def append_turn_def
        split: option.splits sum.splits exn.splits)
qed

lemma chat_session_appends:
  "\<exists>new. chat_history (chat_session e inputs st) = chat_history st @ new"
proof (induction inputs arbitrary: st)
  case Nil
  show ?case by simp
next
  case (Cons ui inputs)
  obtain new1 where 1:
    "chat_history (snd (show_mentor_chat e ui st)) = chat_history st @ new1"
    using show_mentor_chat_appends by blast
  obtain new2 where 2:
    "chat_history (chat_session e inputs (snd (show_mentor_chat e ui st))) =
       chat_history (snd (show_mentor_chat e ui st)) @ new2"
    using Cons.IH by blast
  from 1 2 have "chat_history (chat_session e (ui # inputs) st) = chat_history st @ (new1 @ new2)"
    by simp
  then show ?case by (rule exI)
qed

text \<open>
  Claim C9. The chat history only grows at its end. The parser leaves it as it is; a run
  of \<open>show_mentor_chat\<close>, however it ends, leaves the old history followed by new
  turns; and so does a whole session of runs, so the turns present at any moment are
  still there, unchanged and at the same positions, at every later moment.
\<close>

theorem chat_history_append_only:
  "chat_history (snd (parse_special_commands s st)) = chat_history st
   \<and> (\<exists>new. chat_history (snd (show_mentor_chat e ui st)) = chat_history st @ new)
   \<and> (\<exists>new. chat_history (chat_session e inputs st) = chat_history st @ new)
   \<and> take (length (chat_history st)) (chat_history (chat_session e inputs st)) = chat_history st"
proof -
  have a: "\<exists>new. chat_history (snd (show_mentor_chat e ui st)) = chat_history st @ new"
    using show_mentor_chat_appends [of e ui st] by blast
  obtain new where n: "chat_history (chat_session e inputs st) = chat_history st @ new"
    using chat_session_appends by blast
  then have "take (length (chat_history st)) (chat_history (chat_session e inputs st)) =
      chat_history st"
    by simp
  with a n show ?thesis
    by (simp add: parse_special_commands_chat_history)
qed

theorem chat_history_append_only_witness:
  "chat_history
     (chat_session
        (example_env (\<lambda>k r. Inr ''Learn SQL first.'') (\<lambda>u. Inl (Exception ''ConnectionError'')))
        [Some ''timeline: June 2026'', None, Some ''What should I learn?'']
        (ana_state\<lparr>chat_history := [\<lparr>role = ''user'', content = ''Hello''\<rparr>,
                                      \<lparr>role = ''assistant'', content = ''Hi Ana''\<rparr>]\<rparr>)) =
   [\<lparr>role = ''user'', content = ''Hello''\<rparr>,
    \<lparr>role = ''assistant'', content = ''Hi Ana''\<rparr>,
    \<lparr>role = ''user'', content = ''timeline: June 2026''\<rparr>,
    \<lparr>role = ''assistant'', content = ''Timeline recorded: June 2026.''\<rparr>,
    \<lparr>role = ''user'', content = ''What should I learn?''\<rparr>,
    \<lparr>role = ''assistant'', content = ''Learn SQL first.''\<rparr>]
   \<and> take 2
     (chat_history
       (chat_session
          (example_env (\<lambda>k r. Inr ''Learn SQL first.'') (\<lambda>u. Inl (Exception ''ConnectionError'')))
          [Some ''timeline: June 2026'', None, Some ''What should I learn?'']
          (ana_state\<lparr>chat_history := [\<lparr>role = ''user'', content = ''Hello''\<rparr>,
                                        \<lparr>role = ''assistant'', content = ''Hi Ana''\<rparr>]\<rparr>))) =
   [\<lparr>role = ''user'', content = ''Hello''\<rparr>, \<lparr>role = ''assistant'', content = ''Hi Ana''\<rparr>]"
proof -
  let ?e = "example_env (\<lambda>k r. Inr ''Learn SQL first.'') (\<lambda>u. Inl (Exception ''ConnectionError''))"
  let ?st = "ana_state\<lparr>chat_history := [\<lparr>role = ''user'', content = ''Hello''\<rparr>,
                                      \<lparr>role = ''assistant'', content = ''Hi Ana''\<rparr>]\<rparr>"
  let ?inputs = "[Some ''timeline: June 2026'', None, Some ''What should I learn?'']"
  have ev: "chat_history (chat_session ?e ?inputs ?st) =
   [\<lparr>role = ''user'', content = ''Hello''\<rparr>,
    \<lparr>role = ''assistant'', content = ''Hi Ana''\<rparr>,
    \<lparr>role = ''user'', content = ''timeline: June 2026''\<rparr>,
    \<lparr>role = ''assistant'', content = ''Timeline recorded: June 2026.''\<rparr>,
    \<lparr>role = ''user'', content = ''What should I learn?''\<rparr>,
    \<lparr>role = ''assistant'', content = ''Learn SQL first.''\<rparr>]"
    by code_simp
  have "take (length (chat_history ?st)) (chat_history (chat_session ?e ?inputs ?st)) =
      chat_history ?st"
    using chat_history_append_only [of "[]" ?st ?e None ?inputs] by (elim conjE)
  then have "take 2 (chat_history (chat_session ?e ?inputs ?st)) = chat_history ?st"
    by (simp add: numeral_2_eq_2)
  with ev show ?thesis by simp
qed

end
